theory Spec2Isabelle
  imports Complex_Main
begin

section \<open>Resumable training orchestrator (backend/python-rl)\<close>

text \<open>
  An embedding of \<^verbatim>\<open>ppo_trainer.py\<close> and \<^verbatim>\<open>metrics_tracker.py\<close>: the iteration and
  episode budget, the checkpoint manager, the validation of a checkpoint against the
  live configuration, the resume logic and the iteration loop of \<^verbatim>\<open>train\<close>.
  Python integers are \<open>int\<close>; \<open>//\<close> and \<open>%\<close> are \<open>div\<close> and \<open>mod\<close> (both round towards
  minus infinity, as Python does). Every exception of the source is a value.
\<close>

subsection \<open>Exceptions\<close>

datatype error =
    ZeroDivisionError
  | JSONDecodeError
  | TypeError
  | UnboundLocalError
  | LearnerError

subsection \<open>Python values and dictionaries\<close>

text \<open>
  The values a JSON metadata document holds under a key: \<^verbatim>\<open>null\<close>, a boolean, an integer
  or a string. (Real-number literals are left out: the fields the orchestrator reads back
  are written as integers.) A dictionary is an association list in insertion order, with
  one entry for each key.
\<close>

datatype val = VNone | VBool bool | VInt int | VStr string

type_synonym pydict = "(string \<times> val) list"

text \<open>Python truthiness: \<^verbatim>\<open>None\<close>, \<^verbatim>\<open>False\<close>, \<^verbatim>\<open>0\<close> and \<^verbatim>\<open>''\<close> are false.\<close>

fun truthy :: "val \<Rightarrow> bool" where
  "truthy VNone = False"
| "truthy (VBool b) = b"
| "truthy (VInt n) = (n \<noteq> 0)"
| "truthy (VStr s) = (s \<noteq> [])"

text \<open>\<^verbatim>\<open>v != n\<close> for an integer \<open>n\<close>: a boolean compares as 0 or 1, any other type differs.\<close>

fun py_ne_int :: "val \<Rightarrow> int \<Rightarrow> bool" where
  "py_ne_int VNone n = True"
| "py_ne_int (VBool b) n = ((if b then 1 else 0) \<noteq> n)"
| "py_ne_int (VInt m) n = (m \<noteq> n)"
| "py_ne_int (VStr s) n = True"

text \<open>\<^verbatim>\<open>d.get(k)\<close> and \<^verbatim>\<open>d.get(k, default)\<close>.\<close>

definition py_get :: "pydict \<Rightarrow> string \<Rightarrow> val" where
  "py_get d k = (case map_of d k of None \<Rightarrow> VNone | Some v \<Rightarrow> v)"

definition py_get_default :: "pydict \<Rightarrow> string \<Rightarrow> val \<Rightarrow> val" where
  "py_get_default d k dflt = (case map_of d k of None \<Rightarrow> dflt | Some v \<Rightarrow> v)"

text \<open>\<^verbatim>\<open>d[k] = v\<close>: an existing key keeps its place, a new key goes to the end.\<close>

fun py_set :: "pydict \<Rightarrow> string \<Rightarrow> val \<Rightarrow> pydict" where
  "py_set [] k v = [(k, v)]"
| "py_set ((k', v') # d) k v = (if k' = k then (k, v) # d else (k', v') # py_set d k v)"

text \<open>\<^verbatim>\<open>d.update(e)\<close>.\<close>

fun py_update :: "pydict \<Rightarrow> pydict \<Rightarrow> pydict" where
  "py_update d [] = d"
| "py_update d ((k, v) # e) = py_update (py_set d k v) e"

subsection \<open>Configuration\<close>

text \<open>
  The entries of \<^verbatim>\<open>config.yaml\<close> that the orchestrator reads:
  \<^verbatim>\<open>environment.observation_size\<close>, \<^verbatim>\<open>environment.max_steps\<close>, \<^verbatim>\<open>ppo.train_batch_size\<close>,
  \<^verbatim>\<open>training.total_episodes\<close>, \<^verbatim>\<open>ppo.checkpoint_freq\<close>, \<^verbatim>\<open>training.log_frequency\<close>
  (optional) and \<^verbatim>\<open>ppo.checkpoint_dir\<close>. \<open>cfg_hyperparameters\<close> stands for the five
  reference-only entries that save_checkpoint copies into the metadata (lr_seeker,
  lr_hider, entropy_coeff_seeker, entropy_coeff_hider, gamma): floating-point numbers that
  the orchestrator never reads back.
\<close>

record config =
  cfg_observation_size :: int
  cfg_max_steps :: int
  cfg_train_batch_size :: int
  cfg_total_episodes :: int
  cfg_checkpoint_freq :: int
  cfg_log_frequency :: "int option"
  cfg_checkpoint_dir :: string
  cfg_hyperparameters :: pydict

subsection \<open>Printed output\<close>

text \<open>
  One constructor for each \<^verbatim>\<open>print\<close> of the source that carries information, with the
  values its f-string interpolates; banner lines of \<^verbatim>\<open>=\<close> are left out. An issue of the
  validation is the string the source formats from the same values.
\<close>

datatype issue =
    ObservationSizeMismatch val int
  | ActionSpaceChanged val

datatype msg =
    LoadedCheckpoints nat
  | LoadedMetrics nat
  | CouldNotLoadMetrics
  | CheckpointSaved string
  | TotalEpisodesLine val
  | NoMetadataFound
  | MaxStepsChanged val int
  | BatchSizeChanged val int
  | RestoringFromCheckpoint
  | CheckpointIncompatible "issue list"
  | MetadataMissingEpisodes
  | EstimatedEpisodeOffset val
  | EpisodeOffsetFromMetadata val
  | CouldNotParseIteration
  | RestoringFrom string
  | CheckpointRestored
  | TrainingConfiguration int int int val
  | Progress pydict
  | TrainingComplete
  | TrainingInterrupted
  | ProgressSavedTo string
  | ResumeWith string
  | TrainingError error
  | Summary

subsection \<open>validate_checkpoint_config (lines 186-234)\<close>

text \<open>
  Returns \<open>((is_valid, issues), printed)\<close>. An empty dictionary is falsy and is accepted
  with a warning. Each check has the form
  \<^verbatim>\<open>if saved and saved != current\<close>: a saved value that is absent or falsy is skipped.
\<close>

definition validate_checkpoint_config ::
  "pydict \<Rightarrow> config \<Rightarrow> (bool \<times> issue list) \<times> msg list" where
  "validate_checkpoint_config checkpoint_metadata current_config =
     (if checkpoint_metadata = [] then ((True, []), [NoMetadataFound])
      else let
        saved_obs_size = py_get checkpoint_metadata ''observation_size'';
        current_obs_size = cfg_observation_size current_config;
        issues1 = (if truthy saved_obs_size \<and> py_ne_int saved_obs_size current_obs_size
                   then [ObservationSizeMismatch saved_obs_size current_obs_size] else []);
        saved_action_size = py_get checkpoint_metadata ''action_size'';
        issues2 = issues1 @ (if truthy saved_action_size \<and> py_ne_int saved_action_size 7
                   then [ActionSpaceChanged saved_action_size] else []);
        saved_max_steps = py_get checkpoint_metadata ''max_steps'';
        current_max_steps = cfg_max_steps current_config;
        out1 = (if truthy saved_max_steps \<and> py_ne_int saved_max_steps current_max_steps
                then [MaxStepsChanged saved_max_steps current_max_steps] else []);
        saved_batch = py_get checkpoint_metadata ''train_batch_size'';
        current_batch = cfg_train_batch_size current_config;
        out2 = out1 @ (if truthy saved_batch \<and> py_ne_int saved_batch current_batch
                then [BatchSizeChanged saved_batch current_batch] else [])
      in ((issues2 = [], issues2), out2))"

subsection \<open>Iteration and episode budget (train, lines 409-415)\<close>

text \<open>
  \<^verbatim>\<open>
  episodes_per_iteration = train_batch_size // max_steps
  training_iterations = total_episodes // episodes_per_iteration
  if total_episodes % episodes_per_iteration != 0:
      training_iterations += 1
  \<close>
  Both divisions raise ZeroDivisionError on a zero divisor. The result is the pair
  (episodes_per_iteration, training_iterations).
\<close>

definition budget :: "int \<Rightarrow> int \<Rightarrow> int \<Rightarrow> error + (int \<times> int)" where
  "budget train_batch_size max_steps total_episodes =
     (if max_steps = 0 then Inl ZeroDivisionError
      else let episodes_per_iteration = train_batch_size div max_steps in
        if episodes_per_iteration = 0 then Inl ZeroDivisionError
        else let training_iterations = total_episodes div episodes_per_iteration in
          Inr (episodes_per_iteration,
               if total_episodes mod episodes_per_iteration \<noteq> 0
               then training_iterations + 1 else training_iterations))"

text \<open>The budget in the words of the specification: a floor and a ceiling of quotients.\<close>

definition spec_episodes_per_iteration :: "int \<Rightarrow> int \<Rightarrow> int" where
  "spec_episodes_per_iteration train_batch_size max_steps =
     \<lfloor>real_of_int train_batch_size / real_of_int max_steps\<rfloor>"

definition spec_training_iterations :: "int \<Rightarrow> int \<Rightarrow> int" where
  "spec_training_iterations total_episodes episodes_per_iteration =
     \<lceil>real_of_int total_episodes / real_of_int episodes_per_iteration\<rceil>"

subsection \<open>Strings\<close>

text \<open>Decimal digits, \<^verbatim>\<open>str(n)\<close> for a natural number, and \<^verbatim>\<open>f"{i:06d}"\<close>: the sign
  first, then zeros up to a width of six characters.\<close>

definition is_digit :: "char \<Rightarrow> bool" where
  "is_digit c = ((48::nat) \<le> of_char c \<and> of_char c \<le> (57::nat))"

definition digit_char :: "nat \<Rightarrow> char" where
  "digit_char n = char_of (48 + n)"

definition digit_val :: "char \<Rightarrow> nat" where
  "digit_val c = of_char c - 48"

fun str_nat :: "nat \<Rightarrow> string" where
  "str_nat n = (if n < 10 then [digit_char n] else str_nat (n div 10) @ [digit_char (n mod 10)])"

declare str_nat.simps [simp del]

definition zfill :: "nat \<Rightarrow> string \<Rightarrow> string" where
  "zfill w s = replicate (w - length s) (CHR ''0'') @ s"

definition format_06d :: "int \<Rightarrow> string" where
  "format_06d i = (if i < 0 then CHR ''-'' # zfill 5 (str_nat (nat (- i)))
                   else zfill 6 (str_nat (nat i)))"

text \<open>\<^verbatim>\<open>s.split(sep)\<close> for a one-character separator, and \<^verbatim>\<open>sub in s\<close>.\<close>

fun split_on :: "char \<Rightarrow> string \<Rightarrow> string list" where
  "split_on sep [] = [[]]"
| "split_on sep (c # cs) =
     (if c = sep then [] # split_on sep cs
      else (case split_on sep cs of [] \<Rightarrow> [[c]] | w # ws \<Rightarrow> (c # w) # ws))"

fun contains :: "string \<Rightarrow> string \<Rightarrow> bool" where
  "contains sub [] = (sub = [])"
| "contains sub (c # cs) = (take (length sub) (c # cs) = sub \<or> contains sub cs)"

text \<open>
  \<^verbatim>\<open>int(s)\<close> in base 10: white space around, an optional sign, then digits, where
  single underscores may stand between digits. \<open>None\<close> is the ValueError. (ASCII only;
  the interpreter's limit on the number of digits is left out.)
\<close>

definition is_space :: "char \<Rightarrow> bool" where
  "is_space c = (let n = (of_char c :: nat) in (9 \<le> n \<and> n \<le> 13) \<or> (28 \<le> n \<and> n \<le> 32))"

definition strip :: "string \<Rightarrow> string" where
  "strip s = rev (dropWhile is_space (rev (dropWhile is_space s)))"

fun digit_groups :: "string \<Rightarrow> bool" where
  "digit_groups [] = False"
| "digit_groups [c] = is_digit c"
| "digit_groups (c # d # cs) =
     (is_digit c \<and> (if d = CHR ''_'' then digit_groups cs else digit_groups (d # cs)))"

definition digits_val :: "string \<Rightarrow> nat" where
  "digits_val s = foldl (\<lambda>a c. 10 * a + digit_val c) 0 (filter is_digit s)"

definition py_int :: "string \<Rightarrow> int option" where
  "py_int s =
     (case strip s of
        [] \<Rightarrow> None
      | c # r \<Rightarrow>
          if c = CHR ''-'' then (if digit_groups r then Some (- int (digits_val r)) else None)
          else if c = CHR ''+'' then (if digit_groups r then Some (int (digits_val r)) else None)
          else (if digit_groups (c # r) then Some (int (digits_val (c # r))) else None))"

subsection \<open>Paths\<close>

text \<open>
  A \<^verbatim>\<open>pathlib.Path\<close> (POSIX flavour) is the flag "absolute" and the list of its
  components; empty components and \<^verbatim>\<open>.\<close> are dropped when the string is parsed.
  \<open>path_join p n\<close> is \<^verbatim>\<open>p / n\<close> for a relative one-component name, \<open>path_name\<close> is
  \<^verbatim>\<open>p.name\<close> and \<open>path_str\<close> is \<^verbatim>\<open>str(p)\<close>.
\<close>

type_synonym path = "bool \<times> string list"

definition Path :: "string \<Rightarrow> path" where
  "Path s = (take 1 s = ''/'', filter (\<lambda>c. c \<noteq> [] \<and> c \<noteq> ''.'') (split_on (CHR ''/'') s))"

definition path_join :: "path \<Rightarrow> string \<Rightarrow> path" where
  "path_join p n = (fst p, snd p @ [n])"

definition path_name :: "path \<Rightarrow> string" where
  "path_name p = (if snd p = [] then [] else last (snd p))"

fun join_with :: "string \<Rightarrow> string list \<Rightarrow> string" where
  "join_with sep [] = []"
| "join_with sep [x] = x"
| "join_with sep (x # y # xs) = x @ sep @ join_with sep (y # xs)"

definition path_str :: "path \<Rightarrow> string" where
  "path_str p = (if fst p then ''/'' @ join_with ''/'' (snd p)
                 else if snd p = [] then ''.'' else join_with ''/'' (snd p))"

subsection \<open>Program state\<close>

text \<open>
  A file that the program reads is either absent, or holds text that \<^verbatim>\<open>json.load\<close>
  rejects, or holds a document; one map for each kind of file, from the file's path to
  a document of the schema that the program itself writes. An index document may lack
  the key \<^verbatim>\<open>checkpoints\<close>.
\<close>

datatype 'a file_content = Unparseable | Document 'a

record ckpt_record =
  rec_iteration :: int
  rec_path :: string
  rec_timestamp :: string
  rec_total_episodes :: val

record index_doc =
  idx_checkpoints :: "ckpt_record list option"
  idx_last_updated :: string

text \<open>
  The state: the files, the opaque learner snapshots written by \<^verbatim>\<open>trainer.save\<close>, the
  printed output, the number of clock readings so far, the fields of the
  CheckpointManager and of the MetricsTracker, the checkpoint the learner was restored
  from, and the locals \<^verbatim>\<open>total_episodes_completed\<close> and \<^verbatim>\<open>iteration\<close> of train (the loop
  variable is unbound before the first iteration).
\<close>

record state =
  index_files :: "path \<rightharpoonup> index_doc file_content"
  metrics_files :: "path \<rightharpoonup> pydict list file_content"
  metadata_files :: "path \<rightharpoonup> pydict file_content"
  snapshots :: "path list"
  printed :: "msg list"
  ticks :: nat
  checkpoint_history :: "ckpt_record list"
  metrics_history :: "pydict list"
  restored_from :: "string option"
  total_episodes_completed :: val
  iteration_var :: "int option"

definition blank_state :: state where
  "blank_state = \<lparr>index_files = Map.empty, metrics_files = Map.empty,
     metadata_files = Map.empty, snapshots = [], printed = [], ticks = 0,
     checkpoint_history = [], metrics_history = [], restored_from = None,
     total_episodes_completed = VInt 0, iteration_var = None\<rparr>"

definition print :: "msg list \<Rightarrow> state \<Rightarrow> state" where
  "print ms s = s\<lparr>printed := printed s @ ms\<rparr>"

subsection \<open>The collaborators: the clock and the learning algorithm\<close>

text \<open>
  \<open>clock env n\<close> is the n-th reading of \<^verbatim>\<open>datetime.now().isoformat()\<close>. \<open>learner env i\<close>
  is what \<^verbatim>\<open>trainer.train()\<close> does when it is called in iteration \<open>i\<close>: it returns a
  result, or the cancellation signal arrives (KeyboardInterrupt), or it raises. Of a
  result the orchestrator reads \<^verbatim>\<open>env_runners.episodes_this_iter\<close> (a count of
  episodes, hence a natural number), the two episode means
  and, for each policy in \<^verbatim>\<open>info.learner\<close>, its \<^verbatim>\<open>learner_stats\<close>.
\<close>

record iteration_result =
  res_episodes_this_iter :: "nat option"
  res_episode_len_mean :: "val option"
  res_episode_reward_mean :: "val option"
  res_learner :: "(string \<times> pydict) list"

datatype step = Result iteration_result | KeyboardInterrupt | Raises

record env =
  clock :: "nat \<Rightarrow> string"
  learner :: "int \<Rightarrow> step"

definition now :: "env \<Rightarrow> state \<Rightarrow> string \<times> state" where
  "now e s = (clock e (ticks s), s\<lparr>ticks := Suc (ticks s)\<rparr>)"

subsection \<open>CheckpointManager (lines 75-183)\<close>

definition index_file :: "string \<Rightarrow> path" where
  "index_file checkpoint_dir = path_join (Path checkpoint_dir) ''checkpoint_index.json''"

text \<open>\<^verbatim>\<open>_load_checkpoint_index\<close>: \<^verbatim>\<open>json.load\<close> is not guarded, a parse failure propagates.\<close>

definition load_checkpoint_index :: "string \<Rightarrow> state \<Rightarrow> error + state" where
  "load_checkpoint_index checkpoint_dir s =
     (case index_files s (index_file checkpoint_dir) of
        None \<Rightarrow> Inr s
      | Some Unparseable \<Rightarrow> Inl JSONDecodeError
      | Some (Document data) \<Rightarrow>
          let h = (case idx_checkpoints data of None \<Rightarrow> [] | Some cs \<Rightarrow> cs)
          in Inr (print [LoadedCheckpoints (length h)] (s\<lparr>checkpoint_history := h\<rparr>)))"

definition CheckpointManager_init :: "string \<Rightarrow> state \<Rightarrow> error + state" where
  "CheckpointManager_init checkpoint_dir s =
     load_checkpoint_index checkpoint_dir (s\<lparr>checkpoint_history := []\<rparr>)"

definition save_checkpoint_index :: "env \<Rightarrow> string \<Rightarrow> state \<Rightarrow> state" where
  "save_checkpoint_index e checkpoint_dir s =
     (let (t, s1) = now e s
      in s1\<lparr>index_files := (index_files s1)(index_file checkpoint_dir \<mapsto>
             Document \<lparr>idx_checkpoints = Some (checkpoint_history s1), idx_last_updated = t\<rparr>)\<rparr>)"

definition checkpoint_name :: "int \<Rightarrow> string" where
  "checkpoint_name iteration = ''checkpoint_'' @ format_06d iteration"

text \<open>\<^verbatim>\<open>trainer.save(checkpoint_path)\<close>: the learner writes its snapshot and the path comes
  back as a string.\<close>

definition trainer_save :: "path \<Rightarrow> state \<Rightarrow> string \<times> state" where
  "trainer_save checkpoint_path s =
     (path_str checkpoint_path, s\<lparr>snapshots := snapshots s @ [checkpoint_path]\<rparr>)"

text \<open>
  \<^verbatim>\<open>save_checkpoint(trainer, iteration, config, metrics)\<close>: snapshot, metadata file, index
  record, index file, in this order. An absent or empty \<^verbatim>\<open>metrics\<close> is falsy.
\<close>

definition save_checkpoint :: "env \<Rightarrow> config \<Rightarrow> int \<Rightarrow> pydict \<Rightarrow> state \<Rightarrow> string \<times> state" where
  "save_checkpoint e config iteration metrics s =
     (let name = checkpoint_name iteration;
          checkpoint_path = path_join (Path (cfg_checkpoint_dir config)) name;
          (saved_path, s1) = trainer_save checkpoint_path s;
          (timestamp, s2) = now e s1;
          metadata0 =
            [(''iteration'', VInt iteration),
             (''timestamp'', VStr timestamp),
             (''checkpoint_path'', VStr saved_path),
             (''observation_size'', VInt (cfg_observation_size config)),
             (''action_size'', VInt 7),
             (''max_steps'', VInt (cfg_max_steps config)),
             (''train_batch_size'', VInt (cfg_train_batch_size config))]
            @ cfg_hyperparameters config;
          metadata = (if metrics \<noteq> [] then py_update metadata0 metrics else metadata0);
          s3 = s2\<lparr>metadata_files := (metadata_files s2)
                 (path_join checkpoint_path ''metadata.json'' \<mapsto> Document metadata)\<rparr>;
          s4 = s3\<lparr>checkpoint_history := checkpoint_history s3 @
                 [\<lparr>rec_iteration = iteration, rec_path = name, rec_timestamp = timestamp,
                   rec_total_episodes =
                     (if metrics \<noteq> [] then py_get_default metrics ''total_episodes'' (VInt 0)
                      else VInt 0)\<rparr>]\<rparr>;
          s5 = save_checkpoint_index e (cfg_checkpoint_dir config) s4;
          s6 = print ([CheckpointSaved name] @
                 (case map_of metrics ''total_episodes'' of
                    None \<Rightarrow> [] | Some v \<Rightarrow> [TotalEpisodesLine v])) s5
      in (saved_path, s6))"

definition get_latest_checkpoint :: "string \<Rightarrow> state \<Rightarrow> string option" where
  "get_latest_checkpoint checkpoint_dir s =
     (if checkpoint_history s = [] then None
      else Some (path_str (path_join (Path checkpoint_dir)
                   (rec_path (last (checkpoint_history s))))))"

definition get_checkpoint_metadata :: "string \<Rightarrow> state \<Rightarrow> error + pydict" where
  "get_checkpoint_metadata checkpoint_path s =
     (case metadata_files s (path_join (Path checkpoint_path) ''metadata.json'') of
        None \<Rightarrow> Inr []
      | Some Unparseable \<Rightarrow> Inl JSONDecodeError
      | Some (Document d) \<Rightarrow> Inr d)"

subsection \<open>MetricsTracker (metrics_tracker.py)\<close>

definition metrics_file :: "string \<Rightarrow> path" where
  "metrics_file checkpoint_dir = path_join (Path checkpoint_dir) ''metrics_history.json''"

text \<open>\<^verbatim>\<open>_load_existing_metrics\<close>: the load is inside \<^verbatim>\<open>try\<close>; a failure is printed.\<close>

definition load_existing_metrics :: "string \<Rightarrow> state \<Rightarrow> state" where
  "load_existing_metrics checkpoint_dir s =
     (case metrics_files s (metrics_file checkpoint_dir) of
        None \<Rightarrow> s
      | Some Unparseable \<Rightarrow> print [CouldNotLoadMetrics] s
      | Some (Document h) \<Rightarrow> print [LoadedMetrics (length h)] (s\<lparr>metrics_history := h\<rparr>))"

definition MetricsTracker_init :: "string \<Rightarrow> state \<Rightarrow> state" where
  "MetricsTracker_init checkpoint_dir s =
     load_existing_metrics checkpoint_dir (s\<lparr>metrics_history := []\<rparr>)"

text \<open>A statistic of a policy: 0 when the policy or the statistic is not reported.\<close>

definition policy_stat :: "(string \<times> pydict) list \<Rightarrow> string \<Rightarrow> string \<Rightarrow> val" where
  "policy_stat learner_info policy k =
     (case map_of learner_info policy of
        None \<Rightarrow> VInt 0
      | Some stats \<Rightarrow> py_get_default stats k (VInt 0))"

definition extract_metrics ::
  "env \<Rightarrow> iteration_result \<Rightarrow> int \<Rightarrow> int \<Rightarrow> val \<Rightarrow> int \<Rightarrow> state \<Rightarrow> pydict \<times> state" where
  "extract_metrics e result iteration episodes_this_iter total_episodes max_steps s =
     (let episode_len_mean =
            (case res_episode_len_mean result of None \<Rightarrow> VInt 0 | Some v \<Rightarrow> v);
          episode_reward_mean =
            (case res_episode_reward_mean result of None \<Rightarrow> VInt 0 | Some v \<Rightarrow> v);
          learner_info = res_learner result;
          (timestamp, s1) = now e s;
          metrics =
            [(''iteration'', VInt iteration),
             (''timestamp'', VStr timestamp),
             (''episode_len_mean'', episode_len_mean),
             (''episode_reward_mean'', episode_reward_mean),
             (''episodes_this_iter'', VInt episodes_this_iter),
             (''total_episodes'', total_episodes),
             (''max_steps'', VInt max_steps),
             (''seeker_kl'', policy_stat learner_info ''seeker_policy'' ''kl''),
             (''hider_kl'', policy_stat learner_info ''hider_policy'' ''kl''),
             (''seeker_entropy'', policy_stat learner_info ''seeker_policy'' ''entropy''),
             (''hider_entropy'', policy_stat learner_info ''hider_policy'' ''entropy''),
             (''seeker_loss'', policy_stat learner_info ''seeker_policy'' ''total_loss''),
             (''hider_loss'', policy_stat learner_info ''hider_policy'' ''total_loss''),
             (''seeker_vf_loss'', policy_stat learner_info ''seeker_policy'' ''vf_loss''),
             (''hider_vf_loss'', policy_stat learner_info ''hider_policy'' ''vf_loss'')]
      in (metrics, s1\<lparr>metrics_history := metrics_history s1 @ [metrics]\<rparr>))"

definition save_metrics :: "string \<Rightarrow> state \<Rightarrow> state" where
  "save_metrics checkpoint_dir s =
     s\<lparr>metrics_files := (metrics_files s)
          (metrics_file checkpoint_dir \<mapsto> Document (metrics_history s))\<rparr>"

definition log_progress :: "pydict \<Rightarrow> state \<Rightarrow> state" where
  "log_progress metrics s = print [Progress metrics] s"

text \<open>\<^verbatim>\<open>print_summary\<close> prints nothing for an empty history. Rendering the plots and
  the averages of the summary is outside the orchestration; both calls return.\<close>

definition print_summary :: "state \<Rightarrow> state" where
  "print_summary s = (if metrics_history s = [] then s else print [Summary] s)"

subsection \<open>train: restoring from a checkpoint (lines 417-463)\<close>

text \<open>How \<^verbatim>\<open>train\<close> ends: it returns, or \<^verbatim>\<open>sys.exit\<close> is called, or an exception leaves it.\<close>

datatype outcome = Returned | SystemExit int | Raised error

text \<open>\<^verbatim>\<open>int(checkpoint_path.name.split('_')[1])\<close>; \<open>None\<close> when the index or the
  conversion raises (both are caught by the \<^verbatim>\<open>except\<close> of the source).\<close>

definition parse_iteration :: "string \<Rightarrow> int option" where
  "parse_iteration name =
     (case split_on (CHR ''_'') name of
        _ # part # _ \<Rightarrow> py_int part
      | _ \<Rightarrow> None)"

text \<open>
  The block under \<^verbatim>\<open>if restore_checkpoint:\<close>. The result is the pair
  (episode_offset, start_iteration), or the way \<^verbatim>\<open>train\<close> ends there.
\<close>

definition restore_checkpoint_block ::
  "config \<Rightarrow> int \<Rightarrow> string \<Rightarrow> state \<Rightarrow> (outcome + (val \<times> int)) \<times> state" where
  "restore_checkpoint_block config episodes_per_iteration restore_checkpoint s =
     (let s1 = print [RestoringFromCheckpoint] s in
      case get_checkpoint_metadata restore_checkpoint s1 of
        Inl e \<Rightarrow> (Inl (Raised e), s1)
      | Inr metadata \<Rightarrow>
          let ((is_valid, issues), warnings) = validate_checkpoint_config metadata config;
              s2 = print warnings s1
          in if \<not> is_valid then (Inl (SystemExit 1), print [CheckpointIncompatible issues] s2)
             else
               let episode_offset = py_get_default metadata ''total_episodes'' (VInt 0);
                   name = path_name (Path restore_checkpoint)
               in if contains ''checkpoint_'' name then
                    (case parse_iteration name of
                       None \<Rightarrow> (Inr (episode_offset, 1), print [CouldNotParseIteration] s2)
                     | Some iteration_num \<Rightarrow>
                         if \<not> py_ne_int episode_offset 0 \<and> iteration_num > 0
                         then (Inr (VInt (iteration_num * episodes_per_iteration),
                                    iteration_num + 1),
                               print [MetadataMissingEpisodes,
                                      EstimatedEpisodeOffset
                                        (VInt (iteration_num * episodes_per_iteration))] s2)
                         else (Inr (episode_offset, iteration_num + 1),
                               print [EpisodeOffsetFromMetadata episode_offset] s2))
                  else (Inr (episode_offset, 1), s2))"

text \<open>\<^verbatim>\<open>create_ppo_trainer\<close>: of the learner only the restore is recorded.\<close>

definition create_ppo_trainer :: "string option \<Rightarrow> state \<Rightarrow> state" where
  "create_ppo_trainer restore_path s =
     (case restore_path of
        None \<Rightarrow> s
      | Some p \<Rightarrow> if p = [] then s
                  else print [RestoringFrom p, CheckpointRestored] (s\<lparr>restored_from := Some p\<rparr>))"

text \<open>
  \<^verbatim>\<open>train\<close> up to the \<^verbatim>\<open>try\<close>: the two managers, the budget, the restore block, the
  trainer. The result is (training_iterations, start_iteration) and the state at the
  loop's entry. An absent or empty \<^verbatim>\<open>restore_checkpoint\<close> is falsy.
\<close>

definition train_setup ::
  "config \<Rightarrow> string option \<Rightarrow> state \<Rightarrow> (outcome + (int \<times> int)) \<times> state" where
  "train_setup config restore_checkpoint s =
     (case CheckpointManager_init (cfg_checkpoint_dir config) s of
        Inl e \<Rightarrow> (Inl (Raised e), s)
      | Inr s1 \<Rightarrow>
          let s2 = MetricsTracker_init (cfg_checkpoint_dir config) s1 in
          (case budget (cfg_train_batch_size config) (cfg_max_steps config)
                 (cfg_total_episodes config) of
            Inl e \<Rightarrow> (Inl (Raised e), s2)
          | Inr (episodes_per_iteration, training_iterations) \<Rightarrow>
              (case (case restore_checkpoint of
                       None \<Rightarrow> (Inr (VInt 0, 1), s2)
                     | Some p \<Rightarrow>
                         if p = [] then (Inr (VInt 0, 1), s2)
                         else restore_checkpoint_block config episodes_per_iteration p s2) of
                 (Inl out, s3) \<Rightarrow> (Inl out, s3)
               | (Inr (episode_offset, start_iteration), s3) \<Rightarrow>
                   let s4 = create_ppo_trainer restore_checkpoint s3;
                       s5 = s4\<lparr>total_episodes_completed := episode_offset\<rparr>;
                       s6 = print [TrainingConfiguration training_iterations start_iteration
                                     episodes_per_iteration episode_offset] s5
                   in (Inr (training_iterations, start_iteration), s6))))"

subsection \<open>train: the iteration loop (lines 483-518)\<close>

text \<open>\<^verbatim>\<open>total_episodes_completed += episodes_this_iter\<close>; \<open>None\<close> is the TypeError.\<close>

fun py_add_int :: "val \<Rightarrow> int \<Rightarrow> val option" where
  "py_add_int (VInt a) n = Some (VInt (a + n))"
| "py_add_int (VBool b) n = Some (VInt ((if b then 1 else 0) + n))"
| "py_add_int VNone n = None"
| "py_add_int (VStr s) n = None"

text \<open>What stops the loop early: the cancellation signal, or an exception.\<close>

datatype stop = Interrupt | Failure error

text \<open>One pass through the loop body with the loop variable at \<open>iteration\<close>.\<close>

definition iteration_body :: "env \<Rightarrow> config \<Rightarrow> int \<Rightarrow> state \<Rightarrow> stop option \<times> state" where
  "iteration_body e config iteration s =
     (let s0 = s\<lparr>iteration_var := Some iteration\<rparr> in
      case learner e iteration of
        KeyboardInterrupt \<Rightarrow> (Some Interrupt, s0)
      | Raises \<Rightarrow> (Some (Failure LearnerError), s0)
      | Result result \<Rightarrow>
          let episodes_this_iter =
                (case res_episodes_this_iter result of None \<Rightarrow> 0 | Some n \<Rightarrow> int n)
          in (case py_add_int (total_episodes_completed s0) episodes_this_iter of
               None \<Rightarrow> (Some (Failure TypeError), s0)
             | Some new_total \<Rightarrow>
                 let s1 = s0\<lparr>total_episodes_completed := new_total\<rparr>;
                     (metrics, s2) = extract_metrics e result iteration episodes_this_iter
                                       new_total (cfg_max_steps config) s1;
                     log_freq = (case cfg_log_frequency config of None \<Rightarrow> 1 | Some f \<Rightarrow> f)
                 in if log_freq = 0 then (Some (Failure ZeroDivisionError), s2)
                    else
                      let s3 = (if iteration mod log_freq = 0 then log_progress metrics s2
                                else s2)
                      in if cfg_checkpoint_freq config = 0
                         then (Some (Failure ZeroDivisionError), s3)
                         else if iteration mod cfg_checkpoint_freq config = 0 then
                           let checkpoint_metrics =
                                 [(''total_episodes'', new_total),
                                  (''episodes_this_iter'', VInt episodes_this_iter)];
                               (saved, s4) = save_checkpoint e config iteration
                                               checkpoint_metrics s3;
                               s5 = save_metrics (cfg_checkpoint_dir config) s4
                           in (None, s5)
                         else (None, s3)))"

text \<open>\<^verbatim>\<open>for iteration in range(start_iteration, training_iterations + 1)\<close>.\<close>

function training_loop ::
  "env \<Rightarrow> config \<Rightarrow> int \<Rightarrow> int \<Rightarrow> state \<Rightarrow> stop option \<times> state" where
  "training_loop e config training_iterations iteration s =
     (if training_iterations < iteration then (None, s)
      else case iteration_body e config iteration s of
             (None, s') \<Rightarrow> training_loop e config training_iterations (iteration + 1) s'
           | (Some st, s') \<Rightarrow> (Some st, s'))"
  by pat_completeness auto
termination
  by (relation "measure (\<lambda>(e, config, training_iterations, iteration, s).
                   nat (training_iterations + 1 - iteration))") auto

declare training_loop.simps [simp del]

subsection \<open>train: how the loop ends (lines 519-573)\<close>

text \<open>After the loop: the final checkpoint, at training_iterations.\<close>

definition training_complete :: "env \<Rightarrow> config \<Rightarrow> int \<Rightarrow> state \<Rightarrow> state" where
  "training_complete e config training_iterations s =
     (let s1 = print [TrainingComplete] s;
          final_metrics = [(''total_episodes'', total_episodes_completed s1),
                           (''final'', VBool True)];
          (saved, s2) = save_checkpoint e config training_iterations final_metrics s1;
          s3 = save_metrics (cfg_checkpoint_dir config) s2
      in print_summary s3)"

text \<open>\<^verbatim>\<open>except KeyboardInterrupt\<close>: the checkpoint at the loop variable's value. The
  function is applied where the loop variable is bound.\<close>

definition keyboard_interrupt :: "env \<Rightarrow> config \<Rightarrow> int \<Rightarrow> state \<Rightarrow> state" where
  "keyboard_interrupt e config iteration s =
     (let s1 = print [TrainingInterrupted] s;
          interrupt_metrics = [(''total_episodes'', total_episodes_completed s1),
                               (''interrupted'', VBool True)];
          (saved, s2) = save_checkpoint e config iteration interrupt_metrics s1;
          s3 = save_metrics (cfg_checkpoint_dir config) s2;
          s4 = print_summary s3
      in print [ProgressSavedTo (checkpoint_name iteration),
                ResumeWith (''./checkpoints/'' @ checkpoint_name iteration)] s4)"

text \<open>The \<^verbatim>\<open>try\<close> statement. A cancellation signal with the loop variable unbound cannot
  come from the loop; the handler's use of the variable would raise there.\<close>

definition train_run :: "env \<Rightarrow> config \<Rightarrow> int \<Rightarrow> int \<Rightarrow> state \<Rightarrow> outcome \<times> state" where
  "train_run e config training_iterations start_iteration s =
     (case training_loop e config training_iterations start_iteration s of
        (None, s') \<Rightarrow> (Returned, training_complete e config training_iterations s')
      | (Some Interrupt, s') \<Rightarrow>
          (case iteration_var s' of
             Some iteration \<Rightarrow> (Returned, keyboard_interrupt e config iteration s')
           | None \<Rightarrow> (Raised UnboundLocalError, print [TrainingInterrupted] s'))
      | (Some (Failure err), s') \<Rightarrow> (Raised err, print [TrainingError err] s'))"

definition train :: "env \<Rightarrow> config \<Rightarrow> string option \<Rightarrow> state \<Rightarrow> outcome \<times> state" where
  "train e config restore_checkpoint s =
     (case train_setup config restore_checkpoint s of
        (Inl out, s') \<Rightarrow> (out, s')
      | (Inr (training_iterations, start_iteration), s') \<Rightarrow>
          train_run e config training_iterations start_iteration s')"

subsection \<open>Order of the index records\<close>

text \<open>
  \<open>val_le\<close>: both values are integers and the first is at most the second.
  \<open>record_lt\<close> is the order of the specification between an index record and a later
  one: the iteration increases strictly and total_episodes does not decrease;
  \<open>record_le\<close> lets the iteration repeat. Both are transitive, so a list ordered between
  consecutive records is ordered between all pairs (\<open>sorted_wrt\<close>).
\<close>

fun val_le :: "val \<Rightarrow> val \<Rightarrow> bool" where
  "val_le (VInt a) (VInt b) = (a \<le> b)"
| "val_le _ _ = False"



subsection \<open>Example inputs\<close>

text \<open>A configuration with 20 episodes in an iteration and two iterations, a checkpoint
  after every iteration; a learner that completes 20 episodes in every iteration.\<close>

definition example_config :: config where
  "example_config = \<lparr>cfg_observation_size = 161, cfg_max_steps = 200,
     cfg_train_batch_size = 4000, cfg_total_episodes = 40, cfg_checkpoint_freq = 1,
     cfg_log_frequency = None, cfg_checkpoint_dir = ''./checkpoints'',
     cfg_hyperparameters = []\<rparr>"




section \<open>Properties\<close>

subsection \<open>Budget\<close>

lemma ceiling_quotient:
  fixes a b :: int
  assumes "b \<noteq> 0"
  shows "\<lceil>real_of_int a / real_of_int b\<rceil> = (if a mod b \<noteq> 0 then a div b + 1 else a div b)"
proof -
  have "\<lceil>real_of_int a / real_of_int b\<rceil> = - ((- a) div b)"
    by (simp add: ceiling_divide_eq_div)
  also have "\<dots> = (if a mod b \<noteq> 0 then a div b + 1 else a div b)"
    using assms by (simp add: zdiv_zminus1_eq_if)
  finally show ?thesis .
qed

text \<open>
  C3, as stated, fails: with a batch smaller than one episode the quotient
  episodes_per_iteration is 0 and the second division raises.
\<close>

theorem budget_small_batch_raises:
  "budget 100 200 1000 = Inl ZeroDivisionError"
  by (simp add: budget_def)

text \<open>
  C3 (amended): for positive train_batch_size, max_steps and total_episodes with
  train_batch_size \<ge> max_steps, the orchestrator computes
  episodes_per_iteration = floor(train_batch_size / max_steps) and
  training_iterations = ceil(total_episodes / episodes_per_iteration); and
  4000, 200, 1000 give 20 and 50, while 1010 episodes give 51 iterations.
\<close>

theorem budget_floor_ceiling:
  "(0 < train_batch_size \<and> 0 < max_steps \<and> 0 < total_episodes \<and> max_steps \<le> train_batch_size
      \<longrightarrow> budget train_batch_size max_steps total_episodes =
          Inr (spec_episodes_per_iteration train_batch_size max_steps,
               spec_training_iterations total_episodes
                 (spec_episodes_per_iteration train_batch_size max_steps)))
   \<and> budget 4000 200 1000 = Inr (20, 50)
   \<and> budget 4000 200 1010 = Inr (20, 51)"
proof -
  have general: "budget train_batch_size max_steps total_episodes =
          Inr (spec_episodes_per_iteration train_batch_size max_steps,
               spec_training_iterations total_episodes
                 (spec_episodes_per_iteration train_batch_size max_steps))"
    if h: "0 < train_batch_size" "0 < max_steps" "0 < total_episodes"
          "max_steps \<le> train_batch_size"
  proof -
    have e: "spec_episodes_per_iteration train_batch_size max_steps
               = train_batch_size div max_steps"
      by (simp add: spec_episodes_per_iteration_def floor_divide_of_int_eq)
    have "max_steps div max_steps \<le> train_batch_size div max_steps"
      using h by (intro zdiv_mono1) simp_all
    then have "1 \<le> train_batch_size div max_steps"
      using h by simp
    then have nz: "train_batch_size div max_steps \<noteq> 0" by simp
    show ?thesis
      using h nz
      by (simp add: budget_def e spec_training_iterations_def ceiling_quotient Let_def)
  qed
  have ex1: "budget 4000 200 1000 = Inr (20, 50)" by (simp add: budget_def)
  have ex2: "budget 4000 200 1010 = Inr (20, 51)" by (simp add: budget_def)
  from general ex1 ex2 show ?thesis by blast
qed

theorem budget_floor_ceiling_witness:
  "(0::int) < 4500 \<and> (0::int) < 200 \<and> (0::int) < 1010 \<and> (200::int) \<le> 4500
   \<and> budget 4500 200 1010 = Inr (spec_episodes_per_iteration 4500 200,
      spec_training_iterations 1010 (spec_episodes_per_iteration 4500 200))"
proof -
  have pre: "(0::int) < 4500 \<and> (0::int) < 200 \<and> (0::int) < 1010 \<and> (200::int) \<le> 4500"
    by simp
  from budget_floor_ceiling [of 4500 200 1010] pre show ?thesis by blast
qed

subsection \<open>Validation of a checkpoint against the live configuration\<close>

text \<open>
  C2, as stated, fails: a metadata document whose observation_size is 0 differs from a
  live observation_size of 161, and validation succeeds with no issue, since the check
  skips a falsy saved value.
\<close>

theorem validate_zero_observation_size_passes:
  "py_ne_int (py_get [(''observation_size'', VInt 0), (''action_size'', VInt 7),
                      (''max_steps'', VInt 200), (''train_batch_size'', VInt 4000)]
                ''observation_size'') 161
   \<and> fst (validate_checkpoint_config
          [(''observation_size'', VInt 0), (''action_size'', VInt 7),
           (''max_steps'', VInt 200), (''train_batch_size'', VInt 4000)]
          \<lparr>cfg_observation_size = 161, cfg_max_steps = 200, cfg_train_batch_size = 4000,
           cfg_total_episodes = 1000, cfg_checkpoint_freq = 10, cfg_log_frequency = None,
           cfg_checkpoint_dir = ''./checkpoints'', cfg_hyperparameters = []\<rparr>) = (True, [])"
  by (simp add: validate_checkpoint_config_def py_get_def)

text \<open>
  C2 (amended): if the metadata's observation_size is present, truthy (not 0) and differs
  from the live observation_size, or its action_size is present, truthy and differs from
  7, then validate_checkpoint_config returns ok = False with a non-empty issues list,
  whatever the other fields hold.
\<close>

theorem validate_hard_mismatch_fails:
  assumes "(truthy (py_get md ''observation_size'')
              \<and> py_ne_int (py_get md ''observation_size'') (cfg_observation_size cfg))
           \<or> (truthy (py_get md ''action_size'') \<and> py_ne_int (py_get md ''action_size'') 7)"
  shows "fst (fst (validate_checkpoint_config md cfg)) = False
         \<and> snd (fst (validate_checkpoint_config md cfg)) \<noteq> []"
proof -
  have "md \<noteq> []"
    using assms by (auto simp: py_get_def)
  then show ?thesis
    using assms by (auto simp: validate_checkpoint_config_def Let_def)
qed

theorem validate_hard_mismatch_fails_witness:
  "fst (fst (validate_checkpoint_config
          [(''observation_size'', VInt 150), (''action_size'', VInt 7),
           (''max_steps'', VInt 200), (''train_batch_size'', VInt 4000)]
          \<lparr>cfg_observation_size = 161, cfg_max_steps = 200, cfg_train_batch_size = 4000,
           cfg_total_episodes = 1000, cfg_checkpoint_freq = 10, cfg_log_frequency = None,
           cfg_checkpoint_dir = ''./checkpoints'', cfg_hyperparameters = []\<rparr>)) = False"
  using validate_hard_mismatch_fails
    [of "[(''observation_size'', VInt 150), (''action_size'', VInt 7),
          (''max_steps'', VInt 200), (''train_batch_size'', VInt 4000)]"
        "\<lparr>cfg_observation_size = 161, cfg_max_steps = 200, cfg_train_batch_size = 4000,
           cfg_total_episodes = 1000, cfg_checkpoint_freq = 10, cfg_log_frequency = None,
           cfg_checkpoint_dir = ''./checkpoints'', cfg_hyperparameters = []\<rparr>"]
  by (simp add: py_get_def)

text \<open>
  C7: when the metadata and the live configuration agree on the observation size and the
  action size is 7, validation returns ok = True with no issue, whatever max_steps and
  train_batch_size the metadata holds; a difference in one of those two is printed
  as a warning.
\<close>

theorem validate_soft_mismatch_passes:
  assumes "\<not> py_ne_int (py_get md ''observation_size'') (cfg_observation_size cfg)"
    and "\<not> py_ne_int (py_get md ''action_size'') 7"
  shows "fst (validate_checkpoint_config md cfg) = (True, [])
    \<and> (truthy (py_get md ''max_steps'')
          \<and> py_ne_int (py_get md ''max_steps'') (cfg_max_steps cfg)
        \<longrightarrow> MaxStepsChanged (py_get md ''max_steps'') (cfg_max_steps cfg)
              \<in> set (snd (validate_checkpoint_config md cfg)))
    \<and> (truthy (py_get md ''train_batch_size'')
          \<and> py_ne_int (py_get md ''train_batch_size'') (cfg_train_batch_size cfg)
        \<longrightarrow> BatchSizeChanged (py_get md ''train_batch_size'') (cfg_train_batch_size cfg)
              \<in> set (snd (validate_checkpoint_config md cfg)))"
proof -
  have "md \<noteq> []"
    using assms(1) by (auto simp: py_get_def)
  then show ?thesis
    using assms by (simp add: validate_checkpoint_config_def Let_def)
qed

theorem validate_soft_mismatch_passes_witness:
  "validate_checkpoint_config
          [(''observation_size'', VInt 161), (''action_size'', VInt 7),
           (''max_steps'', VInt 300), (''train_batch_size'', VInt 8000)]
          \<lparr>cfg_observation_size = 161, cfg_max_steps = 200, cfg_train_batch_size = 4000,
           cfg_total_episodes = 1000, cfg_checkpoint_freq = 10, cfg_log_frequency = None,
           cfg_checkpoint_dir = ''./checkpoints'', cfg_hyperparameters = []\<rparr>
     = ((True, []), [MaxStepsChanged (VInt 300) 200, BatchSizeChanged (VInt 8000) 4000])"
proof -
  let ?md = "[(''observation_size'', VInt 161), (''action_size'', VInt 7),
           (''max_steps'', VInt 300), (''train_batch_size'', VInt 8000)]"
  let ?cfg = "\<lparr>cfg_observation_size = 161, cfg_max_steps = 200, cfg_train_batch_size = 4000,
           cfg_total_episodes = 1000, cfg_checkpoint_freq = 10, cfg_log_frequency = None,
           cfg_checkpoint_dir = ''./checkpoints'', cfg_hyperparameters = []\<rparr>"
  have a: "\<not> py_ne_int (py_get ?md ''observation_size'') (cfg_observation_size ?cfg)"
    by (simp add: py_get_def)
  have b: "\<not> py_ne_int (py_get ?md ''action_size'') 7"
    by (simp add: py_get_def)
  have "fst (validate_checkpoint_config ?md ?cfg) = (True, [])"
    using validate_soft_mismatch_passes [OF a b] by blast
  moreover have "snd (validate_checkpoint_config ?md ?cfg)
      = [MaxStepsChanged (VInt 300) 200, BatchSizeChanged (VInt 8000) 4000]"
    by (simp add: validate_checkpoint_config_def py_get_def)
  ultimately show ?thesis by (simp add: prod_eq_iff)
qed

subsection \<open>Decimal strings: formatting and parsing an iteration number\<close>

lemma is_digit_digit_char: "n < 10 \<Longrightarrow> is_digit (digit_char n)"
  by (simp add: is_digit_def digit_char_def)

lemma digit_val_digit_char: "n < 10 \<Longrightarrow> digit_val (digit_char n) = n"
  by (simp add: digit_val_def digit_char_def)

lemma is_digit_zero: "is_digit (CHR ''0'')"
  by (simp add: is_digit_def)

lemma digit_val_zero: "digit_val (CHR ''0'') = 0"
  by (simp add: digit_val_def)

lemma is_digit_not_space: "is_digit c \<Longrightarrow> \<not> is_space c"
  by (simp add: is_digit_def is_space_def Let_def)

lemma is_digit_not_underscore: "is_digit c \<Longrightarrow> c \<noteq> CHR ''_''"
  by (auto simp: is_digit_def)

lemma is_digit_not_minus: "is_digit c \<Longrightarrow> c \<noteq> CHR ''-'' \<and> c \<noteq> CHR ''+''"
  by (auto simp: is_digit_def)

lemma str_nat_digits: "list_all is_digit (str_nat n)"
proof (induction n rule: str_nat.induct)
  case (1 n)
  show ?case
  proof (cases "n < 10")
    case True
    then show ?thesis by (subst str_nat.simps) (simp add: is_digit_digit_char)
  next
    case False
    then show ?thesis
      using 1 by (subst str_nat.simps) (simp add: is_digit_digit_char)
  qed
qed

lemma str_nat_nonempty: "str_nat n \<noteq> []"
  by (subst str_nat.simps) simp

lemma digits_val_snoc:
  "is_digit c \<Longrightarrow> digits_val (s @ [c]) = 10 * digits_val s + digit_val c"
  by (simp add: digits_val_def)

lemma digits_val_str_nat: "digits_val (str_nat n) = n"
proof (induction n rule: str_nat.induct)
  case (1 n)
  show ?case
  proof (cases "n < 10")
    case True
    then show ?thesis
      by (subst str_nat.simps)
         (simp add: digits_val_def digit_val_digit_char is_digit_digit_char)
  next
    case False
    then have "digits_val (str_nat n)
        = 10 * digits_val (str_nat (n div 10)) + digit_val (digit_char (n mod 10))"
      by (subst str_nat.simps) (simp add: digits_val_snoc is_digit_digit_char)
    also have "\<dots> = 10 * (n div 10) + n mod 10"
      using 1 False by (simp add: digit_val_digit_char)
    finally show ?thesis by simp
  qed
qed

lemma digits_val_zeros: "digits_val (replicate k (CHR ''0'') @ s) = digits_val s"
proof -
  have "foldl (\<lambda>a c. 10 * a + digit_val c) 0 (replicate k (CHR ''0'')) = 0"
    by (induction k) (simp_all add: digit_val_zero)
  then show ?thesis by (simp add: digits_val_def is_digit_zero)
qed

lemma zfill_digits: "list_all is_digit s \<Longrightarrow> list_all is_digit (zfill w s)"
  by (auto simp: zfill_def list_all_iff is_digit_zero)

lemma zfill_nonempty: "s \<noteq> [] \<Longrightarrow> zfill w s \<noteq> []"
  by (simp add: zfill_def)

lemma digits_val_zfill: "digits_val (zfill w s) = digits_val s"
  by (simp add: zfill_def digits_val_zeros)

lemma digit_groups_digits: "s \<noteq> [] \<Longrightarrow> list_all is_digit s \<Longrightarrow> digit_groups s"
  by (induction s rule: digit_groups.induct) (auto simp: is_digit_not_underscore)

lemma strip_id:
  assumes "s \<noteq> []" "\<not> is_space (hd s)" "\<not> is_space (last s)"
  shows "strip s = s"
proof -
  have a: "dropWhile is_space s = s"
    using assms(1,2) by (cases s) simp_all
  have "rev s \<noteq> []" "\<not> is_space (hd (rev s))"
    using assms(1,3) by (simp_all add: hd_rev)
  then have "dropWhile is_space (rev s) = rev s"
    by (cases "rev s") simp_all
  then show ?thesis by (simp add: strip_def a)
qed

lemma py_int_digits:
  assumes "s \<noteq> []" "list_all is_digit s"
  shows "py_int s = Some (int (digits_val s))"
    and "py_int (CHR ''-'' # s) = Some (- int (digits_val s))"
proof -
  have h: "is_digit (hd s)" and l: "is_digit (last s)"
    using assms by (auto simp: list_all_iff)
  have st: "strip s = s"
    using assms(1) h l by (intro strip_id) (simp_all add: is_digit_not_space)
  obtain c r where cr: "s = c # r" using assms(1) by (cases s) auto
  have c: "c \<noteq> CHR ''-''" "c \<noteq> CHR ''+''"
    using h cr is_digit_not_minus by auto
  show "py_int s = Some (int (digits_val s))"
    using st cr c digit_groups_digits [OF assms] by (simp add: py_int_def)
  have "\<not> is_space (CHR ''-'')"
    by (simp add: is_space_def)
  then have "strip (CHR ''-'' # s) = CHR ''-'' # s"
    using assms(1) l by (intro strip_id) (simp_all add: is_digit_not_space)
  then show "py_int (CHR ''-'' # s) = Some (- int (digits_val s))"
    using digit_groups_digits [OF assms] by (simp add: py_int_def)
qed

lemma py_int_format_06d: "py_int (format_06d i) = Some i"
proof (cases "i < 0")
  case True
  have "py_int (CHR ''-'' # zfill 5 (str_nat (nat (- i))))
          = Some (- int (digits_val (zfill 5 (str_nat (nat (- i))))))"
    by (intro py_int_digits(2) zfill_nonempty zfill_digits str_nat_nonempty str_nat_digits)
  then show ?thesis
    using True by (simp add: format_06d_def digits_val_zfill digits_val_str_nat)
next
  case False
  have "py_int (zfill 6 (str_nat (nat i))) = Some (int (digits_val (zfill 6 (str_nat (nat i)))))"
    by (intro py_int_digits(1) zfill_nonempty zfill_digits str_nat_nonempty str_nat_digits)
  then show ?thesis
    using False by (simp add: format_06d_def digits_val_zfill digits_val_str_nat)
qed

lemma split_on_absent: "sep \<notin> set t \<Longrightarrow> split_on sep t = [t]"
  by (induction t) auto

lemma format_06d_no_underscore: "CHR ''_'' \<notin> set (format_06d i)"
proof -
  have "CHR ''_'' \<notin> set (zfill w (str_nat n))" for w n
    using zfill_digits [OF str_nat_digits, of w n] is_digit_not_underscore
    by (auto simp: list_all_iff)
  then show ?thesis by (simp add: format_06d_def)
qed

lemma parse_iteration_checkpoint_name: "parse_iteration (checkpoint_name i) = Some i"
  using split_on_absent [OF format_06d_no_underscore, of i]
  by (simp add: parse_iteration_def checkpoint_name_def py_int_format_06d)


lemma checkpoint_name_7: "checkpoint_name 7 = ''checkpoint_000007''"
  by code_simp

lemma parse_iteration_7: "parse_iteration ''checkpoint_000007'' = Some 7"
  using parse_iteration_checkpoint_name [of 7] by (simp only: checkpoint_name_7)

lemma path_name_7: "path_name (Path ''./checkpoints/checkpoint_000007'') = ''checkpoint_000007''"
  by (simp add: Path_def path_name_def)

subsection \<open>Loading the persisted files\<close>

lemma printed_print [simp]: "printed (print ms s) = printed s @ ms"
  and metadata_files_print [simp]: "metadata_files (print ms s) = metadata_files s"
  by (simp_all add: print_def)




text \<open>
  C5 fails on the code for the checkpoint index: with an index file that is not parseable
  JSON the constructor of the CheckpointManager raises, and so does train, before any
  iteration; the MetricsTracker, whose load is guarded, reports the failure and starts
  with an empty history.
\<close>

theorem unparseable_index_raises:
  "CheckpointManager_init d (s\<lparr>index_files := (index_files s)(index_file d \<mapsto> Unparseable)\<rparr>)
     = Inl JSONDecodeError
   \<and> fst (train e cfg r
        (s\<lparr>index_files := (index_files s)(index_file (cfg_checkpoint_dir cfg) \<mapsto> Unparseable)\<rparr>))
     = Raised JSONDecodeError
   \<and> metrics_history (MetricsTracker_init d
        (s\<lparr>metrics_files := (metrics_files s)(metrics_file d \<mapsto> Unparseable)\<rparr>)) = []
   \<and> printed (MetricsTracker_init d
        (s\<lparr>metrics_files := (metrics_files s)(metrics_file d \<mapsto> Unparseable)\<rparr>))
     = printed s @ [CouldNotLoadMetrics]"
  by (simp add: CheckpointManager_init_def load_checkpoint_index_def train_def train_setup_def
        MetricsTracker_init_def load_existing_metrics_def print_def)

subsection \<open>Resuming\<close>

text \<open>
  C8: when the checkpoint directory holds no metadata.json, get_checkpoint_metadata
  returns the empty mapping, validate_checkpoint_config accepts it with ok = True, no
  issue and the warning printed, and the restore block neither exits nor raises: it
  yields an episode offset and a start iteration.
\<close>

theorem missing_metadata_resume:
  assumes "metadata_files s (path_join (Path r) ''metadata.json'') = None"
  shows "get_checkpoint_metadata r s = Inr []
    \<and> validate_checkpoint_config [] cfg = ((True, []), [NoMetadataFound])
    \<and> (\<exists>off st. fst (restore_checkpoint_block cfg epi r s) = Inr (off, st))
    \<and> NoMetadataFound \<in> set (printed (snd (restore_checkpoint_block cfg epi r s)))"
proof -
  have g: "get_checkpoint_metadata r (print [RestoringFromCheckpoint] s) = Inr []"
    using assms by (simp add: get_checkpoint_metadata_def)
  have v: "validate_checkpoint_config [] cfg = ((True, []), [NoMetadataFound])"
    by (simp add: validate_checkpoint_config_def)
  show ?thesis
    using assms g v
    by (auto simp: restore_checkpoint_block_def get_checkpoint_metadata_def Let_def
             split: option.splits)
qed

theorem missing_metadata_resume_witness:
  "get_checkpoint_metadata ''./checkpoints/checkpoint_000007'' blank_state = Inr []
   \<and> fst (restore_checkpoint_block example_config 20 ''./checkpoints/checkpoint_000007''
          blank_state) = Inr (VInt 140, 8)"
proof -
  have a: "metadata_files blank_state
             (path_join (Path ''./checkpoints/checkpoint_000007'') ''metadata.json'') = None"
    by (simp add: blank_state_def)
  have "get_checkpoint_metadata ''./checkpoints/checkpoint_000007'' blank_state = Inr []"
    using missing_metadata_resume [OF a] by blast
  moreover have "fst (restore_checkpoint_block example_config 20
      ''./checkpoints/checkpoint_000007'' blank_state) = Inr (VInt 140, 8)"
    by (simp add: restore_checkpoint_block_def get_checkpoint_metadata_def blank_state_def
          print_def validate_checkpoint_config_def path_name_7 parse_iteration_7
          py_get_default_def)
  ultimately show ?thesis by simp
qed





subsection \<open>The checkpoint index along a run\<close>





lemma val_le_grow: "val_le v (VInt a) \<Longrightarrow> a \<le> b \<Longrightarrow> val_le v (VInt b)"
  by (cases v) simp_all

lemma val_le_right_int: "val_le v w \<Longrightarrow> \<exists>a. w = VInt a"
  by (cases v; cases w) simp_all

























subsection \<open>Interruption and the resume that follows\<close>

















end
